theory Spec2Isabelle
  imports Main "HOL-Library.Sublist" "HOL-Library.Word"
begin

section \<open>JavaScript strings and regular-expression replacement\<close>

text \<open>
  The application is a single React module, \<^verbatim>\<open>src/App.js\<close>. Its strings are modelled as
  \<^typ>\<open>string\<close> (code units up to U+00FF), its byte buffers as lists of 8-bit words. The
  functions of the JavaScript standard library that the module calls
  (\<^verbatim>\<open>split\<close>, \<^verbatim>\<open>join\<close>, \<^verbatim>\<open>trim\<close>, \<^verbatim>\<open>toLowerCase\<close>, \<^verbatim>\<open>replace\<close>) are written out below
  as ECMAScript defines them.
\<close>

type_synonym bytes = "8 word list"

definition is_digit :: "char \<Rightarrow> bool" where
  "is_digit c = (48 \<le> (of_char c :: nat) \<and> (of_char c :: nat) \<le> 57)"

definition digit_value :: "char \<Rightarrow> nat" where
  "digit_value c = of_char c - 48"

definition digit_char :: "nat \<Rightarrow> char" where
  "digit_char n = char_of (48 + n)"

text \<open>\<^verbatim>\<open>Number.prototype.toString()\<close> on a non-negative integer.\<close>

fun toString :: "nat \<Rightarrow> string" where
  "toString n = (if n < 10 then [digit_char n] else toString (n div 10) @ [digit_char (n mod 10)])"

declare toString.simps [simp del]

text \<open>White space and line terminators removed by \<^verbatim>\<open>String.prototype.trim\<close>
  (tab, LF, VT, FF, CR, space, NBSP).\<close>

definition is_space :: "char \<Rightarrow> bool" where
  "is_space c = (c \<in> set [CHR 0x09, CHR 0x0A, CHR 0x0B, CHR 0x0C, CHR 0x0D, CHR 0x20, CHR 0xA0])"

definition trim :: "string \<Rightarrow> string" where
  "trim s = rev (dropWhile is_space (rev (dropWhile is_space s)))"

text \<open>\<^verbatim>\<open>s.split(c)\<close> for a one-character separator: never the empty array.\<close>

fun split :: "char \<Rightarrow> string \<Rightarrow> string list" where
  "split sep [] = [[]]"
| "split sep (c # cs) =
     (if c = sep then [] # split sep cs
      else (case split sep cs of [] \<Rightarrow> [[c]] | l # ls \<Rightarrow> (c # l) # ls))"

text \<open>\<^verbatim>\<open>xs.join(sep)\<close>.\<close>

fun join :: "string \<Rightarrow> string list \<Rightarrow> string" where
  "join sep [] = []"
| "join sep [l] = l"
| "join sep (l # ls) = l @ sep @ join sep ls"

text \<open>\<^verbatim>\<open>xs.pop()\<close>: the last element, \<^verbatim>\<open>undefined\<close> on the empty array.\<close>

fun pop :: "'a list \<Rightarrow> 'a option" where
  "pop [] = None"
| "pop [x] = Some x"
| "pop (x # xs) = pop xs"

text \<open>\<^verbatim>\<open>toLowerCase\<close> on code units up to U+00FF: A-Z and the Latin-1 capitals.\<close>

definition lower_char :: "char \<Rightarrow> char" where
  "lower_char c =
     (let n = (of_char c :: nat) in
      if (65 \<le> n \<and> n \<le> 90) \<or> (192 \<le> n \<and> n \<le> 222 \<and> n \<noteq> 215) then char_of (n + 32) else c)"

definition toLowerCase :: "string \<Rightarrow> string" where
  "toLowerCase s = map lower_char s"

subsection \<open>Matching\<close>

text \<open>
  A pattern is a function from the text at the current position to the ways it can match
  there, in the order the backtracking matcher tries them: the capture groups and the
  number of characters matched. The first element is the match the engine reports.
\<close>

type_synonym matcher = "string \<Rightarrow> (string list \<times> nat) list"

definition lit :: "string \<Rightarrow> matcher" where
  "lit p s = (if prefix p s then [([], length p)] else [])"

text \<open>\<^verbatim>\<open>(\d{lo,hi})\<close>: a greedy run of digits, captured.\<close>

definition digits :: "nat \<Rightarrow> nat \<Rightarrow> matcher" where
  "digits lo hi s =
     map (\<lambda>k. ([take k s], k))
       (filter (\<lambda>k. k \<le> length s \<and> list_all is_digit (take k s)) (rev [lo..<Suc hi]))"

definition seq :: "matcher \<Rightarrow> matcher \<Rightarrow> matcher" where
  "seq m1 m2 s =
     concat (map (\<lambda>(cs1, n1). map (\<lambda>(cs2, n2). (cs1 @ cs2, n1 + n2)) (m2 (drop n1 s))) (m1 s))"

definition exec :: "matcher \<Rightarrow> string \<Rightarrow> (string list \<times> nat) option" where
  "exec rx s = (case rx s of [] \<Rightarrow> None | r # _ \<Rightarrow> Some r)"

subsection \<open>Replacement text\<close>

text \<open>
  \<^verbatim>\<open>GetSubstitution\<close>: in a replacement string \<^verbatim>\<open>$$\<close> stands for a dollar sign, \<^verbatim>\<open>$&\<close> for
  the matched text, \<^verbatim>\<open>$`\<close> for the text before the match, \<^verbatim>\<open>$'\<close> for the text after it,
  and \<^verbatim>\<open>$n\<close>, \<^verbatim>\<open>$nn\<close> for a capture group that exists. Any other dollar sign is literal.
\<close>

definition capture :: "string list \<Rightarrow> nat \<Rightarrow> string option" where
  "capture caps i = (if 1 \<le> i \<and> i \<le> length caps then Some (caps ! (i - 1)) else None)"

fun getSubstitution :: "string \<Rightarrow> string \<Rightarrow> string list \<Rightarrow> string \<Rightarrow> string \<Rightarrow> string" where
  "getSubstitution [] m caps pre post = []"
| "getSubstitution [c] m caps pre post = [c]"
| "getSubstitution (c # d # rest) m caps pre post =
     (if c = CHR ''$'' then
        (if d = CHR ''$'' then CHR ''$'' # getSubstitution rest m caps pre post
         else if d = CHR ''&'' then m @ getSubstitution rest m caps pre post
         else if d = CHR 0x60 then pre @ getSubstitution rest m caps pre post
         else if d = CHR 0x27 then post @ getSubstitution rest m caps pre post
         else if is_digit d then
           (case rest of
              e # rest' \<Rightarrow>
                (if is_digit e then
                   (case capture caps (10 * digit_value d + digit_value e) of
                      Some g \<Rightarrow> g @ getSubstitution rest' m caps pre post
                    | None \<Rightarrow>
                       (if length caps < 10 * digit_value d + digit_value e then
                          (case capture caps (digit_value d) of
                             Some g \<Rightarrow> g @ getSubstitution rest m caps pre post
                           | None \<Rightarrow> c # d # getSubstitution rest m caps pre post)
                        else c # d # e # getSubstitution rest' m caps pre post))
                 else
                   (case capture caps (digit_value d) of
                      Some g \<Rightarrow> g @ getSubstitution rest m caps pre post
                    | None \<Rightarrow> c # d # getSubstitution rest m caps pre post))
            | [] \<Rightarrow>
                (case capture caps (digit_value d) of
                   Some g \<Rightarrow> g
                 | None \<Rightarrow> [c, d]))
         else c # getSubstitution (d # rest) m caps pre post)
      else c # getSubstitution (d # rest) m caps pre post)"

subsection \<open>\<^verbatim>\<open>String.prototype.replace\<close>\<close>

text \<open>Without the \<^verbatim>\<open>g\<close> flag: the leftmost match only. \<open>pre\<close> is the text already passed.\<close>

fun replace_first :: "matcher \<Rightarrow> string \<Rightarrow> string \<Rightarrow> string \<Rightarrow> string" where
  "replace_first rx repl pre [] =
     (case exec rx [] of
        Some (caps, n) \<Rightarrow> pre @ getSubstitution repl [] caps pre []
      | None \<Rightarrow> pre)"
| "replace_first rx repl pre (c # cs) =
     (case exec rx (c # cs) of
        Some (caps, n) \<Rightarrow>
          pre @ getSubstitution repl (take n (c # cs)) caps pre (drop n (c # cs)) @ drop n (c # cs)
      | None \<Rightarrow> replace_first rx repl (pre @ [c]) cs)"

text \<open>With the \<^verbatim>\<open>g\<close> flag: every match, left to right, the search resuming after each
  match (one character further after an empty match).\<close>

function replace_global :: "matcher \<Rightarrow> string \<Rightarrow> string \<Rightarrow> string \<Rightarrow> string" where
  "replace_global rx repl pre s =
     (case exec rx s of
        None \<Rightarrow> (case s of [] \<Rightarrow> [] | c # cs \<Rightarrow> c # replace_global rx repl (pre @ [c]) cs)
      | Some (caps, n) \<Rightarrow>
          getSubstitution repl (take n s) caps pre (drop n s) @
          (if n = 0 \<or> length s < n
           then (case s of [] \<Rightarrow> [] | c # cs \<Rightarrow> c # replace_global rx repl (pre @ [c]) cs)
           else replace_global rx repl (pre @ take n s) (drop n s)))"
  by pat_completeness auto
termination
  by (relation "measure (\<lambda>(rx, repl, pre, s). length s)") auto

declare replace_global.simps [simp del]


section \<open>The data of \<^verbatim>\<open>App.js\<close>\<close>

text \<open>A \<^verbatim>\<open>File\<close> of the browser: its name, its bytes and its MIME type.\<close>

record js_file =
  name :: string
  content :: bytes
  type :: string

text \<open>A \<^verbatim>\<open>Blob\<close> is built from parts (a file, a byte buffer, a string) and a type. The
  processed file handed back by the pipeline is either the \<^verbatim>\<open>File\<close> itself or a new
  \<^verbatim>\<open>Blob\<close>.\<close>

datatype part = FilePart js_file | BufferPart bytes | StringPart string

datatype blob = File js_file | Blob "part list" string

definition utf8 :: "string \<Rightarrow> bytes" where
  "utf8 s =
     concat (map (\<lambda>c. let n = (of_char c :: nat) in
                       if n < 128 then [of_nat n] else [of_nat (192 + n div 64), of_nat (128 + n mod 64)]) s)"

fun part_bytes :: "part \<Rightarrow> bytes" where
  "part_bytes (FilePart f) = content f"
| "part_bytes (BufferPart b) = b"
| "part_bytes (StringPart s) = utf8 s"

fun blob_bytes :: "blob \<Rightarrow> bytes" where
  "blob_bytes (File f) = content f"
| "blob_bytes (Blob ps t) = concat (map part_bytes ps)"

fun blob_type :: "blob \<Rightarrow> string" where
  "blob_type (File f) = type f"
| "blob_type (Blob ps t) = t"

text \<open>The metadata object. Every property may be absent (\<open>None\<close>), as in JavaScript.\<close>

record metadata =
  title :: "string option"
  authors :: "string list option"
  institution :: "string option"
  website :: "string option"
  contact :: "string option"
  source :: "string option"
  dateFormat :: "string option"
  licenseTemplate :: "string option"

datatype error = TypeError | ParseError | DocumentError | ArchiveError

text \<open>The \<^verbatim>\<open>common\<close> tags that \<^verbatim>\<open>parseBuffer\<close> returns, and the information dictionary
  of a loaded \<^verbatim>\<open>PDFDocument\<close> with the rest of the document.\<close>

record common =
  tagTitle :: "string option"
  tagArtist :: "string option"
  tagAlbum :: "string option"

record pdf =
  docTitle :: "string option"
  docAuthor :: "string option"
  docSubject :: "string option"
  docBody :: bytes

text \<open>The local calendar fields of a \<^verbatim>\<open>Date\<close>.\<close>

record date =
  year :: nat
  month :: nat
  day :: nat
  hours :: nat
  minutes :: nat
  seconds :: nat
  milliseconds :: nat

datatype zip_data = ZipBlob blob | ZipText string

type_synonym zip = "(string \<times> zip_data) list"

text \<open>
  What the module gets from its host and its libraries, none of it code of the repository:
  the DOM (\<^verbatim>\<open>innerHTML\<close> set on a fresh element, \<^verbatim>\<open>textContent\<close> read back), the locale data
  behind \<^verbatim>\<open>toLocaleDateString\<close> with numeric year, month and day (the locale is \<open>None\<close> for
  the call without arguments), \<^verbatim>\<open>parseBuffer\<close> of music-metadata-browser,
  \<^verbatim>\<open>PDFDocument.load\<close> and \<^verbatim>\<open>save\<close> of pdf-lib, and \<^verbatim>\<open>generateAsync\<close> of JSZip.
\<close>

record host =
  textContent :: "string \<Rightarrow> string"
  toLocaleDateString :: "string option \<Rightarrow> nat \<Rightarrow> nat \<Rightarrow> nat \<Rightarrow> string"
  parseBuffer :: "bytes \<Rightarrow> string \<Rightarrow> error + common"
  pdfLoad :: "bytes \<Rightarrow> error + pdf"
  pdfSave :: "pdf \<Rightarrow> error + bytes"
  generateAsync :: "zip \<Rightarrow> error + bytes"

subsection \<open>\<^verbatim>\<open>config\<close>\<close>

datatype handler = AttachAudioMetadata | AttachPDFMetadata

definition default_source :: string where "default_source = ''Your Website Name''"
definition default_institution :: string where "default_institution = ''Your Institution Name''"
definition default_website :: string where "default_website = ''Your Website URL''"
definition default_contact :: string where "default_contact = ''Your Contact Info''"

definition defaultMetadata :: metadata where
  "defaultMetadata =
     \<lparr>title = None, authors = Some [], institution = Some default_institution,
      website = Some default_website, contact = Some default_contact,
      source = Some default_source, dateFormat = None, licenseTemplate = None\<rparr>"

text \<open>The own properties of \<^verbatim>\<open>config.supportedTypes\<close>. A key inherited from
  \<^verbatim>\<open>Object.prototype\<close> yields an object without a \<^verbatim>\<open>handler\<close> property, which the
  pipeline treats as it treats no entry.\<close>

definition supportedTypes :: "(string \<times> string \<times> handler option) list" where
  "supportedTypes =
     [(''wav'', ''audio/wav'', Some AttachAudioMetadata),
      (''mp3'', ''audio/mpeg'', Some AttachAudioMetadata),
      (''ogg'', ''audio/ogg'', Some AttachAudioMetadata),
      (''flac'', ''audio/flac'', Some AttachAudioMetadata),
      (''mp4'', ''video/mp4'', None),
      (''webm'', ''video/webm'', None),
      (''jpg'', ''image/jpeg'', None),
      (''jpeg'', ''image/jpeg'', None),
      (''png'', ''image/png'', None),
      (''gif'', ''image/gif'', None),
      (''webp'', ''image/webp'', None),
      (''pdf'', ''application/pdf'', Some AttachPDFMetadata)]"

text \<open>\<^verbatim>\<open>{ ...a, ...b }\<close>: a property of \<open>b\<close> wins where \<open>b\<close> has it.\<close>

definition spread :: "metadata \<Rightarrow> metadata \<Rightarrow> metadata" where
  "spread a b =
     \<lparr>title = (case title b of Some x \<Rightarrow> Some x | None \<Rightarrow> title a),
      authors = (case authors b of Some x \<Rightarrow> Some x | None \<Rightarrow> authors a),
      institution = (case institution b of Some x \<Rightarrow> Some x | None \<Rightarrow> institution a),
      website = (case website b of Some x \<Rightarrow> Some x | None \<Rightarrow> website a),
      contact = (case contact b of Some x \<Rightarrow> Some x | None \<Rightarrow> contact a),
      source = (case source b of Some x \<Rightarrow> Some x | None \<Rightarrow> source a),
      dateFormat = (case dateFormat b of Some x \<Rightarrow> Some x | None \<Rightarrow> dateFormat a),
      licenseTemplate = (case licenseTemplate b of Some x \<Rightarrow> Some x | None \<Rightarrow> licenseTemplate a)\<rparr>"

text \<open>\<^verbatim>\<open>x || d\<close> for a string property: \<open>d\<close> when \<open>x\<close> is absent or empty.\<close>

definition or_else :: "string option \<Rightarrow> string \<Rightarrow> string" where
  "or_else x d = (case x of None \<Rightarrow> d | Some s \<Rightarrow> if s = [] then d else s)"

section \<open>The embedders\<close>

text \<open>
  \<^verbatim>\<open>attachAudioMetadata\<close> parses the buffer, assigns the three tags on the parsed result
  and returns \<^verbatim>\<open>new Blob([file], { type: file.type })\<close>; a failure is logged and thrown
  again. The type a \<^verbatim>\<open>File\<close> carries is already in the form the \<^verbatim>\<open>Blob\<close> constructor
  normalises to.
\<close>

definition attachAudioMetadata :: "host \<Rightarrow> js_file \<Rightarrow> metadata \<Rightarrow> error + blob" where
  "attachAudioMetadata h f md =
     (case parseBuffer h (content f) (type f) of
        Inl e \<Rightarrow> Inl e
      | Inr metadataResult \<Rightarrow>
          (case authors md of
             None \<Rightarrow> Inl TypeError
           | Some a \<Rightarrow>
               (let updated = metadataResult
                      \<lparr>tagTitle := Some (or_else (title md) ''Default Title''),
                       tagArtist := Some (or_else (Some (join '', '' a)) (join '', '' [])),
                       tagAlbum := Some (or_else (source md) default_source)\<rparr>;
                    updatedBlob = Blob [FilePart f] (type f)
                in Inr updatedBlob)))"

definition attachPDFMetadata :: "host \<Rightarrow> js_file \<Rightarrow> metadata \<Rightarrow> error + blob" where
  "attachPDFMetadata h f md =
     (case pdfLoad h (content f) of
        Inl e \<Rightarrow> Inl e
      | Inr pdfDoc \<Rightarrow>
          (case authors md of
             None \<Rightarrow> Inl TypeError
           | Some a \<Rightarrow>
               (case pdfSave h (pdfDoc
                      \<lparr>docTitle := Some (or_else (title md) ''Default Title''),
                       docAuthor := Some (or_else (Some (join '', '' a)) (join '', '' [])),
                       docSubject := Some (or_else (source md) default_source)\<rparr>) of
                  Inl e \<Rightarrow> Inl e
                | Inr pdfBytes \<Rightarrow> Inr (Blob [BufferPart pdfBytes] ''application/pdf''))))"

fun run_handler :: "handler \<Rightarrow> host \<Rightarrow> js_file \<Rightarrow> metadata \<Rightarrow> error + blob" where
  "run_handler AttachAudioMetadata = attachAudioMetadata"
| "run_handler AttachPDFMetadata = attachPDFMetadata"

section \<open>The license text\<close>

definition rx_month_year :: matcher where
  "rx_month_year = seq (digits 1 2) (seq (lit ''/'') (digits 4 4))"

definition rx_day_month_year :: matcher where
  "rx_day_month_year =
     seq (digits 1 2) (seq (lit ''/'') (seq (digits 1 2) (seq (lit ''/'') (digits 4 4))))"

definition formatDate :: "host \<Rightarrow> date \<Rightarrow> string option \<Rightarrow> string" where
  "formatDate h d format =
     (if format = Some ''yyyy-m-d'' then
        toLocaleDateString h (Some ''en-CA'') (year d) (month d) (day d)
      else if format = Some ''m-yyyy-d'' then
        replace_first rx_month_year ''$2-$1'' []
          (toLocaleDateString h (Some ''en-GB'') (year d) (month d) (day d))
      else if format = Some ''d-m-yyyy'' then
        replace_first rx_day_month_year ''$1-$2-$3'' []
          (toLocaleDateString h (Some ''en-GB'') (year d) (month d) (day d))
      else toLocaleDateString h None (year d) (month d) (day d))"

definition newline :: char where "newline = CHR 0x0A"

text \<open>
  \<^verbatim>\<open>generateLicenseContent\<close>. \<open>now\<close> is what \<^verbatim>\<open>new Date()\<close> returns. Reading
  \<^verbatim>\<open>metadata.licenseTemplate.replace\<close> on a metadata object without a template throws a
  \<^verbatim>\<open>TypeError\<close>. An element outside the document renders no layout, so the
  \<^verbatim>\<open>innerText\<close> alternative equals \<^verbatim>\<open>textContent\<close>.
\<close>

definition generateLicenseContent :: "host \<Rightarrow> date \<Rightarrow> string \<Rightarrow> metadata \<Rightarrow> error + string" where
  "generateLicenseContent h now filename md =
     (let downloadDate = formatDate h now (dateFormat md);
          authorsList = (case authors md of
                           None \<Rightarrow> ''N/A''
                         | Some a \<Rightarrow> if length a > 0 then join '', '' a else ''N/A'')
      in case licenseTemplate md of
           None \<Rightarrow> Inl TypeError
         | Some template \<Rightarrow>
             (let html = replace_global (lit ''</p>'') [newline] []
                           (replace_global (lit ''<p>'') [] [] template);
                  p0 = textContent h html;
                  p1 = replace_global (lit ''{filename}'') filename [] p0;
                  p2 = replace_global (lit ''{downloadDate}'') downloadDate [] p1;
                  p3 = replace_global (lit ''{year}'') (toString (year now)) [] p2;
                  p4 = replace_global (lit ''{institution}'')
                         (or_else (institution md) default_institution) [] p3;
                  p5 = replace_global (lit ''{website}'') (or_else (website md) default_website) [] p4;
                  p6 = replace_global (lit ''{contact}'') (or_else (contact md) default_contact) [] p5;
                  p7 = replace_global (lit ''{authorsList}'') authorsList [] p6
              in Inr (join [newline] (map trim (split newline p7)))))"

section \<open>The pipeline\<close>

record attached =
  processedFile :: blob
  licenseBlob :: blob

text \<open>
  \<^verbatim>\<open>attachMetadataToDownload\<close>. The extension is computed before the \<^verbatim>\<open>try\<close>; whatever the
  \<^verbatim>\<open>try\<close> block throws, the \<^verbatim>\<open>catch\<close> block generates the license again and returns the
  file itself.
\<close>

definition attachMetadataToDownload :: "host \<Rightarrow> date \<Rightarrow> js_file \<Rightarrow> metadata \<Rightarrow> error + attached" where
  "attachMetadataToDownload h now f customMetadata =
     (let md = spread defaultMetadata customMetadata in
      case pop (split CHR ''.'' (name f)) of
        None \<Rightarrow> Inl TypeError
      | Some ext \<Rightarrow>
          (let fileExtension = toLowerCase ext;
               handler = (case map_of supportedTypes fileExtension of
                            Some entry \<Rightarrow> Some entry
                          | None \<Rightarrow> map_of supportedTypes ''default'');
               attempt =
                 (case (case handler of
                          Some (mimeType, Some run) \<Rightarrow> run_handler run h f md
                        | _ \<Rightarrow> Inr (File f)) of
                    Inl e \<Rightarrow> Inl e
                  | Inr processed \<Rightarrow>
                      (case generateLicenseContent h now (name f) md of
                         Inl e \<Rightarrow> Inl e
                       | Inr licenseContent \<Rightarrow>
                           Inr \<lparr>processedFile = processed,
                                licenseBlob = Blob [StringPart licenseContent] ''text/plain''\<rparr>))
           in case attempt of
                Inr r \<Rightarrow> Inr r
              | Inl e \<Rightarrow>
                  (case generateLicenseContent h now (name f) md of
                     Inl e' \<Rightarrow> Inl e'
                   | Inr licenseContent \<Rightarrow>
                       Inr \<lparr>processedFile = File f,
                            licenseBlob = Blob [StringPart licenseContent] ''text/plain''\<rparr>)))"





section \<open>A host to run the model on\<close>

text \<open>
  The locale data that browsers ship (CLDR): \<^verbatim>\<open>en-CA\<close> renders a numeric date as
  \<^verbatim>\<open>y-MM-dd\<close>, \<^verbatim>\<open>en-GB\<close> as \<^verbatim>\<open>dd/MM/y\<close>; the default locale is taken to be \<^verbatim>\<open>en-US\<close>,
  \<^verbatim>\<open>M/d/y\<close>.
\<close>

definition pad2 :: "nat \<Rightarrow> string" where
  "pad2 n = (if n < 10 then CHR ''0'' # toString n else toString n)"

definition cldr_date :: "string option \<Rightarrow> nat \<Rightarrow> nat \<Rightarrow> nat \<Rightarrow> string" where
  "cldr_date locale y m d =
     (if locale = Some ''en-CA'' then toString y @ ''-'' @ pad2 m @ ''-'' @ pad2 d
      else if locale = Some ''en-GB'' then pad2 d @ ''/'' @ pad2 m @ ''/'' @ toString y
      else toString m @ ''/'' @ toString d @ ''/'' @ toString y)"

text \<open>The text of markup that holds no character references: the tags are dropped.\<close>

fun strip_tags :: "bool \<Rightarrow> string \<Rightarrow> string" where
  "strip_tags in_tag [] = []"
| "strip_tags in_tag (c # cs) =
     (if in_tag then (if c = CHR ''>'' then strip_tags False cs else strip_tags True cs)
      else if c = CHR ''<'' then strip_tags True cs
      else c # strip_tags False cs)"

text \<open>A small tagged container: the title, a zero byte, the payload. A buffer without the
  zero byte does not parse.\<close>

definition sample_parse :: "bytes \<Rightarrow> string \<Rightarrow> error + common" where
  "sample_parse b mime =
     (if list_ex (\<lambda>x. x = 0) b
      then Inr \<lparr>tagTitle = Some (map (\<lambda>x. char_of (unat x)) (takeWhile (\<lambda>x. x \<noteq> 0) b)),
                tagArtist = None, tagAlbum = None\<rparr>
      else Inl ParseError)"

text \<open>A small document format: a non-empty body; saving writes the title in front of it.\<close>

definition sample_load :: "bytes \<Rightarrow> error + pdf" where
  "sample_load b =
     (if b = [] then Inl DocumentError
      else Inr \<lparr>docTitle = None, docAuthor = None, docSubject = None, docBody = b\<rparr>)"

definition sample_save :: "pdf \<Rightarrow> error + bytes" where
  "sample_save doc = Inr (utf8 (case docTitle doc of None \<Rightarrow> [] | Some t \<Rightarrow> t) @ docBody doc)"

definition sample_host :: host where
  "sample_host =
     \<lparr>textContent = strip_tags False, toLocaleDateString = cldr_date,
      parseBuffer = sample_parse, pdfLoad = sample_load, pdfSave = sample_save,
      generateAsync = (\<lambda>z. Inr [])\<rparr>"

definition sample_date :: date where
  "sample_date =
     \<lparr>year = 2024, month = 3, day = 5, hours = 10, minutes = 30, seconds = 15, milliseconds = 0\<rparr>"

definition sample_metadata :: metadata where
  "sample_metadata =
     \<lparr>title = None, authors = Some [''Ada Lovelace''], institution = Some ''Acme Labs'',
      website = Some [], contact = None, source = None, dateFormat = Some ''d-m-yyyy'',
      licenseTemplate = Some ''<p>File: {filename}</p><p>{year} {institution} {website}</p><p>Authors: {authorsList} </p>''\<rparr>"

text \<open>Inputs for running the model: an audio file in the sample container whose title tag
  reads \<open>Old\<close>, a document whose whole name is \<open>pdf\<close>, and the metadata object without
  any property (the default value of the second parameter of
  \<^verbatim>\<open>attachMetadataToDownload\<close>).\<close>

definition sample_audio :: js_file where
  "sample_audio = \<lparr>name = ''track.mp3'', content = [79, 108, 100, 0, 7, 7], type = ''audio/mpeg''\<rparr>"

definition sample_document :: js_file where
  "sample_document = \<lparr>name = ''pdf'', content = [37, 80, 68, 70], type = ''application/pdf''\<rparr>"

definition empty_metadata :: metadata where
  "empty_metadata =
     \<lparr>title = None, authors = None, institution = None, website = None, contact = None,
      source = None, dateFormat = None, licenseTemplate = None\<rparr>"

text \<open>Two clock readings agree to the second.\<close>

definition same_second :: "date \<Rightarrow> date \<Rightarrow> bool" where
  "same_second t1 t2 =
     (year t1 = year t2 \<and> month t1 = month t2 \<and> day t1 = day t2 \<and>
      hours t1 = hours t2 \<and> minutes t1 = minutes t2 \<and> seconds t1 = seconds t2)"

section \<open>Templates as pieces, and simultaneous substitution\<close>


















section \<open>Properties of the replacement passes\<close>

subsection \<open>Replacement by a literal pattern\<close>







subsection \<open>Occurrences\<close>





subsection \<open>Line normalisation\<close>


lemma split_not_Nil: "split sep s \<noteq> []"
  by (induction s) (auto split: list.splits)




subsection \<open>Placeholders left to their defaults\<close>







lemma license_with_template:
  "licenseTemplate md = Some t \<Longrightarrow> \<exists>lic. generateLicenseContent h now filename md = Inr lic"
  by (simp add: generateLicenseContent_def Let_def)

subsection \<open>The passes on a well-formed template\<close>








lemma pop_split: "\<exists>ext. pop (split sep s) = Some ext"
proof -
  have "xs \<noteq> [] \<Longrightarrow> \<exists>x. pop xs = Some x" for xs :: "string list"
    by (induction xs rule: pop.induct) auto
  then show ?thesis using split_not_Nil by blast
qed

section \<open>The claims\<close>

subsection \<open>The fallback\<close>



subsection \<open>The audio embedder\<close>

text \<open>
  Claim C10. For every audio file whose container parses, \<^verbatim>\<open>attachAudioMetadata\<close> returns a
  blob with the bytes of the input file and the type of the input file: the tags are
  assigned on the parsed result only, and the blob is built from the file itself. The
  metadata carries an authors list, as every metadata object that the pipeline builds does.
\<close>

theorem audio_blob_is_input:
  assumes "parseBuffer h (content f) (type f) = Inr tags" and "authors md = Some a"
  shows "\<exists>b. attachAudioMetadata h f md = Inr b \<and> blob_bytes b = content f \<and> blob_type b = type f"
  using assms by (simp add: attachAudioMetadata_def Let_def)

theorem audio_blob_is_input_witness:
  "\<exists>b. attachAudioMetadata sample_host sample_audio sample_metadata = Inr b \<and>
       blob_bytes b = content sample_audio \<and> blob_type b = type sample_audio"
proof -
  have p: "parseBuffer sample_host (content sample_audio) (type sample_audio) =
        Inr \<lparr>tagTitle = Some ''Old'', tagArtist = None, tagAlbum = None\<rparr>"
    by code_simp
  have a: "authors sample_metadata = Some [''Ada Lovelace'']"
    by (simp add: sample_metadata_def)
  show ?thesis using audio_blob_is_input [OF p a] .
qed

text \<open>
  Claim C2 says that the title, artist and album read back from the processed bytes as the
  values supplied. On the sample file, whose title tag is \<open>Old\<close>, with the title \<open>New\<close>
  supplied, the embedder returns the bytes of the input, and they still parse to the title
  \<open>Old\<close>.
\<close>

theorem audio_tags_read_back_unchanged:
  "attachAudioMetadata sample_host sample_audio (sample_metadata\<lparr>title := Some ''New''\<rparr>) =
     Inr (Blob [FilePart sample_audio] ''audio/mpeg'') \<and>
   parseBuffer sample_host (blob_bytes (Blob [FilePart sample_audio] ''audio/mpeg'')) ''audio/mpeg'' =
     Inr \<lparr>tagTitle = Some ''Old'', tagArtist = None, tagAlbum = None\<rparr>"
  by code_simp

subsection \<open>The license text\<close>

text \<open>
  Claim C9. \<^verbatim>\<open>generateLicenseContent\<close> is deterministic: two calls with the same file name,
  the same metadata and clock readings that agree to the second return the same text.
\<close>

theorem license_deterministic:
  "same_second t1 t2 \<Longrightarrow>
   generateLicenseContent h t1 filename md = generateLicenseContent h t2 filename md"
proof -
  assume s: "same_second t1 t2"
  have d: "formatDate h t1 fmt = formatDate h t2 fmt" for fmt
    using s by (simp add: same_second_def formatDate_def)
  have y: "year t1 = year t2"
    using s by (simp add: same_second_def)
  show ?thesis
    unfolding generateLicenseContent_def d y ..
qed

theorem license_deterministic_witness:
  "same_second sample_date (sample_date\<lparr>milliseconds := 999\<rparr>) \<and>
   generateLicenseContent sample_host sample_date ''track.mp3'' sample_metadata =
   generateLicenseContent sample_host (sample_date\<lparr>milliseconds := 999\<rparr>) ''track.mp3'' sample_metadata"
proof -
  have s: "same_second sample_date (sample_date\<lparr>milliseconds := 999\<rparr>)"
    by (simp add: same_second_def)
  show ?thesis using s license_deterministic [OF s] by simp
qed

text \<open>
  Claim C3 says that license generation never fails, whatever fields the metadata lacks.
  The template has no fallback: on the metadata object without properties, merged with
  \<^verbatim>\<open>config.defaultMetadata\<close> as the pipeline does, \<^verbatim>\<open>generateLicenseContent\<close> throws a
  \<^verbatim>\<open>TypeError\<close>, and so does \<^verbatim>\<open>attachMetadataToDownload\<close> called without metadata, for
  every file.
\<close>

theorem license_without_template_throws:
  "generateLicenseContent h now filename (spread defaultMetadata empty_metadata) = Inl TypeError \<and>
   attachMetadataToDownload h now f empty_metadata = Inl TypeError"
proof -
  have g: "generateLicenseContent h now fn (spread defaultMetadata empty_metadata) = Inl TypeError" for fn
    by (simp add: generateLicenseContent_def spread_def defaultMetadata_def empty_metadata_def)
  show ?thesis
    by (simp add: g attachMetadataToDownload_def Let_def split: option.splits sum.splits prod.splits)
qed

text \<open>
  Claim C7 says that with a non-empty authors list every \<^verbatim>\<open>{authorsList}\<close> is replaced by
  the comma-joined authors. The joined text is handed to \<^verbatim>\<open>replace\<close> as a replacement
  pattern: for the single author \<^verbatim>\<open>A$$B\<close> the license reads \<^verbatim>\<open>A$B\<close>.
\<close>

theorem dollar_pattern_in_authors:
  "generateLicenseContent sample_host sample_date ''track.mp3''
     (sample_metadata\<lparr>authors := Some [''A$$B''], licenseTemplate := Some ''Authors: {authorsList}''\<rparr>) =
   Inr ''Authors: A$B''"
  by code_simp

subsection \<open>Substitution\<close>





subsection \<open>The date\<close>

text \<open>
  Claim C6 says that every date format renders with its own separator and field order, and
  that 2024-03-05 under \<^verbatim>\<open>d-m-yyyy\<close> reads \<^verbatim>\<open>5-3-2024\<close>. With the locale data of the
  browsers it reads \<^verbatim>\<open>05-03-2024\<close>, and under \<^verbatim>\<open>m-yyyy-d\<close> it reads \<^verbatim>\<open>05/2024-03\<close>.
\<close>

theorem date_formats_counterexample:
  "formatDate sample_host sample_date (Some ''d-m-yyyy'') = ''05-03-2024'' \<and>
   formatDate sample_host sample_date (Some ''d-m-yyyy'') \<noteq> ''5-3-2024'' \<and>
   formatDate sample_host sample_date (Some ''m-yyyy-d'') = ''05/2024-03''"
  by code_simp

text \<open>
  Claim C6, amended. Under \<^verbatim>\<open>yyyy-m-d\<close> the date is the \<^verbatim>\<open>en-CA\<close> rendering as it stands.
  Under \<^verbatim>\<open>d-m-yyyy\<close> it is the \<^verbatim>\<open>en-GB\<close> rendering, day, month and year in this order
  with the digits the locale data gives them, the two slashes rewritten to hyphens:
  2024-03-05 reads \<^verbatim>\<open>05-03-2024\<close>.
\<close>

theorem date_day_month_year:
  assumes gb: "toLocaleDateString h (Some ''en-GB'') (year d) (month d) (day d) = D @ ''/'' @ M @ ''/'' @ Y"
    and D: "list_all is_digit D" "length D = 1 \<or> length D = 2"
    and M: "list_all is_digit M" "length M = 1 \<or> length M = 2"
    and Y: "list_all is_digit Y" "length Y = 4"
  shows "formatDate h d (Some ''d-m-yyyy'') = D @ ''-'' @ M @ ''-'' @ Y \<and>
         formatDate h d (Some ''yyyy-m-d'') = toLocaleDateString h (Some ''en-CA'') (year d) (month d) (day d)"
proof -
  obtain w x y z where Yq: "Y = [w, x, y, z]"
    using Y(2) by (auto simp: length_Suc_conv numeral_eq_Suc)
  have slash: "\<not> is_digit CHR ''/''" by (simp add: is_digit_def)
  consider (a) a c where "D = [a]" "M = [c]" | (b) a c c' where "D = [a]" "M = [c, c']"
    | (c) a a' c where "D = [a, a']" "M = [c]" | (d) a a' c c' where "D = [a, a']" "M = [c, c']"
    using D(2) M(2) by (auto simp: length_Suc_conv numeral_eq_Suc)
  then have "replace_first rx_day_month_year ''$1-$2-$3'' [] (D @ ''/'' @ M @ ''/'' @ Y) = D @ ''-'' @ M @ ''-'' @ Y"
  proof cases
    case a
    then show ?thesis using D(1) M(1) Y(1) slash
      by (simp add: Yq rx_day_month_year_def seq_def digits_def lit_def exec_def capture_def is_digit_def digit_value_def upt_rec)
  next
    case b
    then show ?thesis using D(1) M(1) Y(1) slash
      by (simp add: Yq rx_day_month_year_def seq_def digits_def lit_def exec_def capture_def is_digit_def digit_value_def upt_rec)
  next
    case c
    then show ?thesis using D(1) M(1) Y(1) slash
      by (simp add: Yq rx_day_month_year_def seq_def digits_def lit_def exec_def capture_def is_digit_def digit_value_def upt_rec)
  next
    case d
    then show ?thesis using D(1) M(1) Y(1) slash
      by (simp add: Yq rx_day_month_year_def seq_def digits_def lit_def exec_def capture_def is_digit_def digit_value_def upt_rec)
  qed
  then show ?thesis
    by (simp add: formatDate_def gb)
qed

theorem date_day_month_year_witness:
  "formatDate sample_host sample_date (Some ''d-m-yyyy'') = ''05-03-2024'' \<and>
   formatDate sample_host sample_date (Some ''yyyy-m-d'') = ''2024-03-05''"
proof -
  have gb: "toLocaleDateString sample_host (Some ''en-GB'') (year sample_date) (month sample_date)
              (day sample_date) = ''05'' @ ''/'' @ ''03'' @ ''/'' @ ''2024''"
    by code_simp
  have ca: "toLocaleDateString sample_host (Some ''en-CA'') (year sample_date) (month sample_date)
              (day sample_date) = ''2024-03-05''"
    by code_simp
  have d2: "list_all is_digit ''05''" "list_all is_digit ''03''" "list_all is_digit ''2024''"
    by (simp_all add: is_digit_def)
  show ?thesis
    using date_day_month_year [OF gb d2(1) _ d2(2) _ d2(3)] ca by simp
qed

subsection \<open>The pipeline and the archive\<close>

text \<open>
  Claim C5 says that a file name without any extension is passed through. The extension is
  the last element of the name split at the dots, which is the whole name when it holds no
  dot: the file named \<open>pdf\<close> is handed to \<^verbatim>\<open>attachPDFMetadata\<close>, and the processed bytes
  are those of the saved document, not those of the input.
\<close>

theorem whole_name_taken_as_extension:
  "pop (split CHR ''.'' (name sample_document)) = Some ''pdf'' \<and>
   map_of supportedTypes (toLowerCase ''pdf'') = Some (''application/pdf'', Some AttachPDFMetadata) \<and>
   attachMetadataToDownload sample_host sample_date sample_document sample_metadata =
     Inr \<lparr>processedFile =
            Blob [BufferPart (utf8 ''Default Title'' @ content sample_document)] ''application/pdf'',
          licenseBlob =
            Blob [StringPart ''File: pdf\<newline>2024 Acme Labs Your Website URL\<newline>Authors: Ada Lovelace\<newline>'']
              ''text/plain''\<rparr> \<and>
   blob_bytes (Blob [BufferPart (utf8 ''Default Title'' @ content sample_document)] ''application/pdf'')
     \<noteq> content sample_document"
  by code_simp



subsection \<open>Further properties\<close>

text \<open>
  The template is the one field whose absence makes license generation fail: whenever the
  metadata holds a template, \<^verbatim>\<open>generateLicenseContent\<close> returns a text, whatever other
  fields are absent or empty.
\<close>

theorem license_generated_with_template:
  assumes "licenseTemplate md = Some t"
  shows "\<exists>lic. generateLicenseContent h now filename md = Inr lic"
  using assms by (rule license_with_template)

theorem license_generated_with_template_witness:
  "\<exists>lic. generateLicenseContent sample_host sample_date ''track.mp3''
     (empty_metadata\<lparr>licenseTemplate := Some ''{institution}''\<rparr>) = Inr lic"
proof -
  have t: "licenseTemplate (empty_metadata\<lparr>licenseTemplate := Some ''{institution}''\<rparr>) =
      Some ''{institution}''"
    by simp
  show ?thesis using license_generated_with_template [OF t] .
qed

text \<open>
  A file whose name, taken after its last dot and in lower case (the whole name when it has
  no dot), is none of \<^verbatim>\<open>wav\<close>, \<^verbatim>\<open>mp3\<close>, \<^verbatim>\<open>ogg\<close>, \<^verbatim>\<open>flac\<close>, \<^verbatim>\<open>pdf\<close> is passed
  through: the processed file is the input file itself, and the license is generated.
\<close>

theorem no_handler_passes_through:
  assumes ext: "pop (split CHR ''.'' (name f)) = Some ext"
    and key: "toLowerCase ext \<notin> set [''wav'', ''mp3'', ''ogg'', ''flac'', ''pdf'']"
    and template: "licenseTemplate custom = Some t"
  shows "\<exists>lic.
     attachMetadataToDownload h now f custom =
       Inr \<lparr>processedFile = File f, licenseBlob = Blob [StringPart lic] ''text/plain''\<rparr> \<and>
     generateLicenseContent h now (name f) (spread defaultMetadata custom) = Inr lic"
proof -
  have "licenseTemplate (spread defaultMetadata custom) = Some t"
    using template by (simp add: spread_def)
  then obtain lic where lic:
    "generateLicenseContent h now (name f) (spread defaultMetadata custom) = Inr lic"
    using license_with_template by blast
  have d: "map_of supportedTypes ''default'' = None"
    by (simp add: supportedTypes_def)
  have "map_of supportedTypes (toLowerCase ext) = None \<or>
        (\<exists>m. map_of supportedTypes (toLowerCase ext) = Some (m, None))"
    using key by (simp add: supportedTypes_def)
  then have "attachMetadataToDownload h now f custom =
       Inr \<lparr>processedFile = File f, licenseBlob = Blob [StringPart lic] ''text/plain''\<rparr>"
    using ext lic d by (auto simp: attachMetadataToDownload_def Let_def)
  then show ?thesis using lic by blast
qed

theorem no_handler_passes_through_witness:
  "\<exists>lic.
     attachMetadataToDownload sample_host sample_date
       \<lparr>name = ''photo.heic'', content = [1, 2, 3], type = ''image/heic''\<rparr> sample_metadata =
       Inr \<lparr>processedFile = File \<lparr>name = ''photo.heic'', content = [1, 2, 3], type = ''image/heic''\<rparr>,
            licenseBlob = Blob [StringPart lic] ''text/plain''\<rparr> \<and>
     generateLicenseContent sample_host sample_date ''photo.heic''
       (spread defaultMetadata sample_metadata) = Inr lic"
proof -
  have ext: "pop (split CHR ''.'' (name \<lparr>name = ''photo.heic'', content = [1, 2, 3], type = ''image/heic''\<rparr>))
      = Some ''heic''"
    by code_simp
  have key: "toLowerCase ''heic'' \<notin> set [''wav'', ''mp3'', ''ogg'', ''flac'', ''pdf'']"
    by code_simp
  have template: "licenseTemplate sample_metadata =
      Some ''<p>File: {filename}</p><p>{year} {institution} {website}</p><p>Authors: {authorsList} </p>''"
    by (simp add: sample_metadata_def)
  show ?thesis
    using no_handler_passes_through [OF ext key template, of sample_host sample_date] by simp
qed

end
